theory Spec2Isabelle
  imports Complex_Main "HOL-Library.Multiset"
begin

section \<open>Data model (lib/types)\<close>

text \<open>
  A Firestore \<open>Timestamp\<close> is used by the widget only through \<open>toMillis()\<close> and
  \<open>toDate()\<close>; it is represented by the instant it denotes, in milliseconds since the
  epoch.
\<close>

datatype Timestamp = Timestamp (toMillis: int)

text \<open>
  A JavaScript \<open>Date\<close> holds a time value, a whole number of milliseconds since the
  epoch of magnitude at most 8.64e15, or \<open>NaN\<close> (an Invalid Date), here \<open>None\<close>.
  \<open>TimeClip\<close> is the step of the language that turns a number into a time value.
\<close>

type_synonym Date = "int option"

definition maxTime :: int where
  "maxTime = 8640000000000000"

definition timeClip :: "int \<Rightarrow> Date" where
  "timeClip t = (if maxTime < \<bar>t\<bar> then None else Some t)"

text \<open>\<open>toDate()\<close> is \<open>new Date(this.toMillis())\<close>.\<close>

definition toDate :: "Timestamp \<Rightarrow> Date" where
  "toDate t = timeClip (toMillis t)"

text \<open>\<open>AppRole = 'super_admin' | 'bride' | 'groom' | 'collaborator' | 'guest'\<close>\<close>

datatype AppRole = super_admin | bride | groom | collaborator | guest

text \<open>\<open>AppUser\<close>: the two optional fields the notification widget reads.\<close>

record AppUser =
  role :: "AppRole option"
  createdAt :: "Timestamp option"

text \<open>
  \<open>WeddingData\<close>: the widget reads \<open>weddingData?.weddingDate\<close> and tests it for
  truthiness, so a document without the field is representable.
\<close>

record WeddingData =
  weddingDate :: "Timestamp option"

datatype Target = all | couples

text \<open>\<open>Notification\<close>: a static notification sent manually by the admin.\<close>

record Notification =
  n_id :: string
  n_title :: string
  n_description :: string
  n_target :: Target
  n_buttonLabel :: "string option"
  n_buttonUrl :: "string option"
  n_createdAt :: Timestamp

datatype TriggerType = relativeToSignup | relativeToWeddingDate

text \<open>
  \<open>NotificationCampaign\<close>: a rule for a notification that is triggered automatically.
  \<open>offsetDays\<close> is a whole number of days, negative for "before".
\<close>

record NotificationCampaign =
  c_id :: string
  c_name :: string
  c_title :: string
  c_description :: string
  c_buttonLabel :: "string option"
  c_buttonUrl :: "string option"
  c_triggerType :: TriggerType
  c_offsetDays :: int
  c_isActive :: bool
  c_createdAt :: Timestamp

text \<open>
  \<open>UserNotificationState\<close>: the document stored under
  \<open>users/{uid}/notificationStates/{id}\<close>; both flags are optional fields.
\<close>

record UserNotificationState =
  read :: "bool option"
  deleted :: "bool option"

type_synonym States = "string \<rightharpoonup> UserNotificationState"

text \<open>
  \<open>MergedNotification\<close>: the entries of the feed. The object spread \<open>{...notif, isRead}\<close>
  copies every property of a manual notification, its \<open>target\<close> included; the object
  literal built for a campaign has no \<open>target\<close> and sets \<open>isCampaign: true\<close>.
\<close>

record MergedNotification =
  m_id :: string
  m_title :: string
  m_description :: string
  m_target :: "Target option"
  m_buttonLabel :: "string option"
  m_buttonUrl :: "string option"
  m_createdAt :: Timestamp
  m_isRead :: bool
  m_isCampaign :: "bool option"

section \<open>Library functions used by the widget\<close>

text \<open>
  The time zone of the browser, as the language sees it: the offset of local time from
  UTC in milliseconds, looked up by a UTC instant (\<open>LocalTZA(t, true)\<close>) and by a local
  wall-clock reading (\<open>LocalTZA(t, false)\<close>; a reading that a clock change skips or
  repeats takes the offset in force before the change).
\<close>

record TimeZone =
  offsetAtUtc :: "int \<Rightarrow> int"
  offsetAtLocal :: "int \<Rightarrow> int"

definition msPerDay :: int where
  "msPerDay = 86400000"

text \<open>
  \<open>date.setDate(date.getDate() + amount)\<close> on a valid time value \<open>t\<close>: the local
  reading of \<open>t\<close> is moved by \<open>amount\<close> calendar days at the same time of day
  (\<open>MakeDate(MakeDay(year, month, date + amount), TimeWithinDay)\<close>, which is the local
  reading plus \<open>amount\<close> times 86400000), read back as a UTC instant, and clipped.
\<close>

definition setDatePlus :: "TimeZone \<Rightarrow> int \<Rightarrow> int \<Rightarrow> Date" where
  "setDatePlus tz t amount =
     (let local = t + offsetAtUtc tz t;
          newDate = local + amount * msPerDay
      in timeClip (newDate - offsetAtLocal tz newDate))"

text \<open>
  date-fns \<open>addDays(date, amount)\<close>, for a whole \<open>amount\<close>: the date itself when
  \<open>amount\<close> is 0, else a copy moved with \<open>setDate(getDate() + amount)\<close>; an Invalid
  Date stays invalid.
\<close>

definition addDays :: "TimeZone \<Rightarrow> Date \<Rightarrow> int \<Rightarrow> Date" where
  "addDays tz date amount =
     (case date of
        None \<Rightarrow> None
      | Some t \<Rightarrow> if amount = 0 then Some t else setDatePlus tz t amount)"

text \<open>
  date-fns \<open>isPast(date)\<close> is \<open>+date < Date.now()\<close>, false for an Invalid Date; the
  clock reading is the first argument here.
\<close>

definition isPast :: "int \<Rightarrow> Date \<Rightarrow> bool" where
  "isPast now date = (case date of None \<Rightarrow> False | Some t \<Rightarrow> t < now)"

text \<open>
  \<open>Array.prototype.sort(compare)\<close> is stable: the result is the one ordering of the
  elements in which \<open>compare\<close> is never positive on an earlier and a later element and
  elements that compare equal keep their order. Insertion from the right computes it.
\<close>

fun insert_cmp :: "('a \<Rightarrow> 'a \<Rightarrow> int) \<Rightarrow> 'a \<Rightarrow> 'a list \<Rightarrow> 'a list" where
  "insert_cmp cmp x [] = [x]"
| "insert_cmp cmp x (y # ys) =
     (if cmp x y \<le> 0 then x # y # ys else y # insert_cmp cmp x ys)"

fun sort_cmp :: "('a \<Rightarrow> 'a \<Rightarrow> int) \<Rightarrow> 'a list \<Rightarrow> 'a list" where
  "sort_cmp cmp [] = []"
| "sort_cmp cmp (x # xs) = insert_cmp cmp x (sort_cmp cmp xs)"

section \<open>NotificationsWidget: the merged feed\<close>

text \<open>\<open>userStates[id]?.deleted\<close> and \<open>userStates[id]?.read\<close> as truth values.\<close>

definition isDeleted :: "States \<Rightarrow> string \<Rightarrow> bool" where
  "isDeleted userStates i =
     (case userStates i of None \<Rightarrow> False | Some st \<Rightarrow> deleted st = Some True)"

definition isRead :: "States \<Rightarrow> string \<Rightarrow> bool" where
  "isRead userStates i =
     (case userStates i of None \<Rightarrow> False | Some st \<Rightarrow> read st = Some True)"

text \<open>\<open>userProfile?.role\<close> and \<open>userProfile?.createdAt\<close>.\<close>

definition profileRole :: "AppUser option \<Rightarrow> AppRole option" where
  "profileRole userProfile = (case userProfile of None \<Rightarrow> None | Some p \<Rightarrow> role p)"

definition profileCreatedAt :: "AppUser option \<Rightarrow> Timestamp option" where
  "profileCreatedAt userProfile =
     (case userProfile of None \<Rightarrow> None | Some p \<Rightarrow> createdAt p)"

text \<open>\<open>weddingData?.weddingDate\<close>\<close>

definition weddingDateOf :: "WeddingData option \<Rightarrow> Timestamp option" where
  "weddingDateOf weddingData =
     (case weddingData of None \<Rightarrow> None | Some w \<Rightarrow> weddingDate w)"

text \<open>Step 1: the filter and the map over \<open>globalNotifications\<close>.\<close>

definition manualVisible :: "AppUser option \<Rightarrow> States \<Rightarrow> Notification \<Rightarrow> bool" where
  "manualVisible userProfile userStates notif =
     (if isDeleted userStates (n_id notif) then False
      else if n_target notif = couples then
        (let userRole = profileRole userProfile
         in userRole = Some bride \<or> userRole = Some groom \<or> userRole = Some super_admin)
      else True)"

definition manualEntry :: "States \<Rightarrow> Notification \<Rightarrow> MergedNotification" where
  "manualEntry userStates notif =
     \<lparr> m_id = n_id notif, m_title = n_title notif, m_description = n_description notif,
       m_target = Some (n_target notif), m_buttonLabel = n_buttonLabel notif,
       m_buttonUrl = n_buttonUrl notif, m_createdAt = n_createdAt notif,
       m_isRead = isRead userStates (n_id notif), m_isCampaign = None \<rparr>"

definition manualNotifications ::
  "AppUser option \<Rightarrow> States \<Rightarrow> Notification list \<Rightarrow> MergedNotification list" where
  "manualNotifications userProfile userStates globalNotifications =
     map (manualEntry userStates)
       (filter (manualVisible userProfile userStates) globalNotifications)"

text \<open>Step 2: the campaigns. \<open>triggerDate\<close> stays \<open>null\<close> when neither branch applies.\<close>

definition triggerDate ::
  "TimeZone \<Rightarrow> Timestamp \<Rightarrow> WeddingData option \<Rightarrow> NotificationCampaign \<Rightarrow> Date option" where
  "triggerDate tz signup weddingData campaign =
     (if c_triggerType campaign = relativeToSignup then
        Some (addDays tz (toDate signup) (c_offsetDays campaign))
      else (case weddingDateOf weddingData of
              Some wd \<Rightarrow> Some (addDays tz (toDate wd) (c_offsetDays campaign))
            | None \<Rightarrow> None))"

definition campaignEntry :: "States \<Rightarrow> NotificationCampaign \<Rightarrow> MergedNotification" where
  "campaignEntry userStates campaign =
     \<lparr> m_id = c_id campaign, m_title = c_title campaign,
       m_description = c_description campaign, m_target = None,
       m_buttonLabel = c_buttonLabel campaign, m_buttonUrl = c_buttonUrl campaign,
       m_createdAt = c_createdAt campaign,
       m_isRead = isRead userStates (c_id campaign), m_isCampaign = Some True \<rparr>"

definition campaignFires ::
  "TimeZone \<Rightarrow> int \<Rightarrow> Timestamp \<Rightarrow> WeddingData option \<Rightarrow> NotificationCampaign \<Rightarrow> bool" where
  "campaignFires tz now signup weddingData campaign =
     (case triggerDate tz signup weddingData campaign of
        None \<Rightarrow> False
      | Some d \<Rightarrow> isPast now d)"

definition campaignNotifications ::
  "TimeZone \<Rightarrow> int \<Rightarrow> AppUser option \<Rightarrow> WeddingData option \<Rightarrow> States \<Rightarrow>
   NotificationCampaign list \<Rightarrow> MergedNotification list" where
  "campaignNotifications tz now userProfile weddingData userStates notificationCampaigns =
     (case profileCreatedAt userProfile of
        None \<Rightarrow> []
      | Some signup \<Rightarrow>
          map (campaignEntry userStates)
            (filter (campaignFires tz now signup weddingData)
              (filter (\<lambda>c. c_isActive c \<and> \<not> isDeleted userStates (c_id c))
                notificationCampaigns)))"

text \<open>Step 3: combine and sort, newest \<open>createdAt\<close> first.\<close>

definition byCreatedAtDesc :: "MergedNotification \<Rightarrow> MergedNotification \<Rightarrow> int" where
  "byCreatedAtDesc a b = toMillis (m_createdAt b) - toMillis (m_createdAt a)"

definition mergedNotifications ::
  "TimeZone \<Rightarrow> int \<Rightarrow> AppUser option \<Rightarrow> WeddingData option \<Rightarrow> Notification list \<Rightarrow>
   NotificationCampaign list \<Rightarrow> States \<Rightarrow> MergedNotification list" where
  "mergedNotifications tz now userProfile weddingData globalNotifications
       notificationCampaigns userStates =
     sort_cmp byCreatedAtDesc
       (manualNotifications userProfile userStates globalNotifications @
        campaignNotifications tz now userProfile weddingData userStates notificationCampaigns)"

definition unreadCount :: "MergedNotification list \<Rightarrow> nat" where
  "unreadCount feed = length (filter (\<lambda>n. \<not> m_isRead n) feed)"

section \<open>NotificationsWidget: the two mutations\<close>

text \<open>The signed-in user of \<open>useAuthentication()\<close>; \<open>None\<close> is \<open>null\<close>.\<close>

datatype User = User (uid: string)

text \<open>
  \<open>setDoc(ref, data, { merge: true })\<close> on the collection
  \<open>users/{uid}/notificationStates\<close> of the signed-in user: the fields present in
  \<open>data\<close> overwrite the stored ones, every other stored field is kept, and a document
  that does not exist is created from \<open>data\<close> alone.
\<close>

definition mergeFields ::
  "UserNotificationState \<Rightarrow> UserNotificationState \<Rightarrow> UserNotificationState" where
  "mergeFields old data =
     \<lparr> read = (case read data of None \<Rightarrow> read old | Some b \<Rightarrow> Some b),
       deleted = (case deleted data of None \<Rightarrow> deleted old | Some b \<Rightarrow> Some b) \<rparr>"

definition setDocMerge :: "States \<Rightarrow> string \<Rightarrow> UserNotificationState \<Rightarrow> States" where
  "setDocMerge db ref data =
     db(ref \<mapsto> (case db ref of None \<Rightarrow> data | Some old \<Rightarrow> mergeFields old data))"

text \<open>
  What the awaited \<open>setDoc\<close> promise does: it resolves once the write is committed, or
  it rejects with an error and nothing is written.
\<close>

datatype WriteResult = Committed | Failed string

text \<open>
  What a handler leaves behind: how its own promise settles for the caller, the stored
  states, and the lines written with \<open>console.error\<close> (message and error).
\<close>

datatype Settled = Fulfilled | Rejected string

record Outcome =
  settled :: Settled
  db_after :: States
  consoleErrors :: "(string \<times> string) list"

definition handleMarkAsRead ::
  "User option \<Rightarrow> States \<Rightarrow> States \<Rightarrow> string \<Rightarrow> WriteResult \<Rightarrow> Outcome" where
  "handleMarkAsRead user userStates db notificationId w =
     (if user = None \<or> isRead userStates notificationId then
        \<lparr> settled = Fulfilled, db_after = db, consoleErrors = [] \<rparr>
      else
        (case w of
           Committed \<Rightarrow>
             \<lparr> settled = Fulfilled,
               db_after = setDocMerge db notificationId \<lparr> read = Some True, deleted = None \<rparr>,
               consoleErrors = [] \<rparr>
         | Failed e \<Rightarrow>
             \<lparr> settled = Fulfilled, db_after = db,
               consoleErrors = [(''Error marking notification as read:'', e)] \<rparr>))"

definition handleDelete :: "User option \<Rightarrow> States \<Rightarrow> string \<Rightarrow> WriteResult \<Rightarrow> Outcome" where
  "handleDelete user db notificationId w =
     (if user = None then
        \<lparr> settled = Fulfilled, db_after = db, consoleErrors = [] \<rparr>
      else
        (case w of
           Committed \<Rightarrow>
             \<lparr> settled = Fulfilled,
               db_after = setDocMerge db notificationId \<lparr> read = None, deleted = Some True \<rparr>,
               consoleErrors = [] \<rparr>
         | Failed e \<Rightarrow>
             \<lparr> settled = Fulfilled, db_after = db,
               consoleErrors = [(''Error deleting notification:'', e)] \<rparr>))"

text \<open>
  A session of the widget: the user clicks "mark as read" or the bin on some entry, one
  click after the other. Each click sees whatever copy of the states the subscription
  has delivered so far (\<open>ev_userStates\<close>) and its write commits or fails.
\<close>

datatype Action = MarkRead string | Delete string

record Event =
  ev_action :: Action
  ev_userStates :: States
  ev_write :: WriteResult

definition perform :: "User option \<Rightarrow> States \<Rightarrow> Event \<Rightarrow> States" where
  "perform user db ev =
     (case ev_action ev of
        MarkRead i \<Rightarrow> db_after (handleMarkAsRead user (ev_userStates ev) db i (ev_write ev))
      | Delete i \<Rightarrow> db_after (handleDelete user db i (ev_write ev)))"

fun run :: "User option \<Rightarrow> States \<Rightarrow> Event list \<Rightarrow> States" where
  "run user db [] = db"
| "run user db (ev # evs) = run user (perform user db ev) evs"

text \<open>The stored value of each flag, \<open>None\<close> where the document or the field is absent.\<close>

definition readField :: "States \<Rightarrow> string \<Rightarrow> bool option" where
  "readField db i = (case db i of None \<Rightarrow> None | Some st \<Rightarrow> read st)"

definition deletedField :: "States \<Rightarrow> string \<Rightarrow> bool option" where
  "deletedField db i = (case db i of None \<Rightarrow> None | Some st \<Rightarrow> deleted st)"

section \<open>ImageUploader\<close>

text \<open>
  JavaScript numbers are IEEE 754 doubles. A finite double is a rational; the result of
  \<open>/\<close> and \<open>*\<close> is the exact result rounded to the nearest double, ties to the even
  significand. \<open>roundToDouble\<close> is that rounding for a non-negative rational in the
  normal range (every value the resize computes is): with \<open>2 ^ e \<le> x < 2 ^ (e + 1)\<close>
  the doubles around \<open>x\<close> are the multiples of \<open>2 ^ (e - 52)\<close>.
\<close>

function ilog2 :: "int \<Rightarrow> int" where
  "ilog2 n = (if n < 2 then 0 else 1 + ilog2 (n div 2))"
  by pat_completeness auto
termination
  by (relation "measure nat") auto

declare ilog2.simps [simp del]

definition pow2 :: "int \<Rightarrow> rat" where
  "pow2 k = (if 0 \<le> k then 2 ^ nat k else 1 / 2 ^ nat (- k))"

definition roundHalfEven :: "rat \<Rightarrow> int" where
  "roundHalfEven m =
     (let q = \<lfloor>m\<rfloor>; f = m - of_int q
      in if f < 1 / 2 then q else if 1 / 2 < f then q + 1
         else if even q then q else q + 1)"

definition exponentOf :: "rat \<Rightarrow> int" where
  "exponentOf x =
     (case quotient_of x of (p, q) \<Rightarrow>
        (let d = ilog2 p - ilog2 q
         in if pow2 d \<le> x then d else d - 1))"

definition roundToDouble :: "rat \<Rightarrow> rat" where
  "roundToDouble x =
     (if x = 0 then 0
      else (let ulp = pow2 (exponentOf x - 52)
            in of_int (roundHalfEven (x / ulp)) * ulp))"

definition jsDiv :: "rat \<Rightarrow> rat \<Rightarrow> rat" where
  "jsDiv a b = roundToDouble (a / b)"

definition jsMul :: "rat \<Rightarrow> rat \<Rightarrow> rat" where
  "jsMul a b = roundToDouble (a * b)"

text \<open>
  \<open>img.width\<close> and \<open>img.height\<close> are non-negative integers (32-bit ones, which are
  doubles as they stand).
\<close>

definition MAX_WIDTH :: rat where
  "MAX_WIDTH = 1920"

definition MAX_HEIGHT :: rat where
  "MAX_HEIGHT = 1080"

definition newDimensions :: "nat \<Rightarrow> nat \<Rightarrow> rat \<times> rat" where
  "newDimensions imgWidth imgHeight =
     (let width = of_nat imgWidth; height = of_nat imgHeight
      in if width > height then
           (if width > MAX_WIDTH then (MAX_WIDTH, jsMul height (jsDiv MAX_WIDTH width))
            else (width, height))
         else
           (if height > MAX_HEIGHT then (jsMul width (jsDiv MAX_HEIGHT height), MAX_HEIGHT)
            else (width, height)))"

text \<open>
  \<open>canvas.width = width; canvas.height = height\<close>: the canvas stores whole pixels, the
  fraction is dropped.
\<close>

definition canvasSize :: "nat \<Rightarrow> nat \<Rightarrow> nat \<times> nat" where
  "canvasSize imgWidth imgHeight =
     (case newDimensions imgWidth imgHeight of
        (width, height) \<Rightarrow> (nat \<lfloor>width\<rfloor>, nat \<lfloor>height\<rfloor>))"

text \<open>
  What the browser makes of the chosen file: the reader fails, the image does not decode,
  or it decodes to an image of some width and height.
\<close>

datatype Decoded = ReaderError | ImageError | Image nat nat

record File =
  f_size :: nat
  f_decoded :: Decoded

text \<open>
  The browser around the uploader: whether \<open>getContext('2d')\<close> returns a context, and
  the length of the data URL that \<open>toDataURL('image/jpeg', 0.7)\<close> produces for a file
  drawn on a canvas of a given size.
\<close>

record Browser =
  hasContext :: bool
  dataUrlLength :: "File \<Rightarrow> nat \<times> nat \<Rightarrow> nat"

datatype Ingest =
    NoFile
  | OriginalTooLarge
  | ReadFailed
  | InvalidImage
  | NoContext
  | CompressedTooLarge "nat \<times> nat"
  | UploadComplete "nat \<times> nat"

definition compressAndConvertToBase64 :: "Browser \<Rightarrow> File \<Rightarrow> Ingest" where
  "compressAndConvertToBase64 br file =
     (case f_decoded file of
        ReaderError \<Rightarrow> ReadFailed
      | ImageError \<Rightarrow> InvalidImage
      | Image w h \<Rightarrow>
          (let canvas = canvasSize w h
           in if \<not> hasContext br then NoContext
              else if dataUrlLength br file canvas > 1 * 1024 * 1024
                then CompressedTooLarge canvas
              else UploadComplete canvas))"

definition handleFileSelect :: "Browser \<Rightarrow> File option \<Rightarrow> Ingest" where
  "handleFileSelect br chosen =
     (case chosen of
        None \<Rightarrow> NoFile
      | Some file \<Rightarrow>
          (if f_size file > 5 * 1024 * 1024 then OriginalTooLarge
           else compressAndConvertToBase64 br file))"

section \<open>Image search\<close>

text \<open>
  The request \<open>searchUnsplashImages\<close> sends: the endpoint with its query parameters in
  order, and the \<open>Authorization\<close> header.
\<close>

record Request =
  req_url :: string
  req_params :: "(string \<times> string) list"
  req_authorization :: string

text \<open>
  What \<open>fetch\<close> gives back: the request or the reading of the body throws, it answers
  with a status that is not ok (the text shown is the first error of the body or the
  status text), or it answers with the \<open>results\<close> of the body.
\<close>

datatype 'img Response = FetchError | NotOk string | Ok "'img list"

text \<open>
  Reading \<open>configs/api_keys\<close>: the read throws, or it yields the \<open>unsplashAccessKey\<close>
  field (\<open>None\<close> when the document or the field is missing).
\<close>

datatype KeyLookup = DbError | Key "string option"

record 'img Services =
  keyLookup :: KeyLookup
  fetch :: "Request \<Rightarrow> 'img Response"

record 'img SearchResult =
  success :: bool
  images :: "'img list option"
  error :: "string option"

definition searchRequest :: "string \<Rightarrow> string \<Rightarrow> Request" where
  "searchRequest accessKey query =
     \<lparr> req_url = ''https://api.unsplash.com/search/photos'',
       req_params = [(''query'', query), (''per_page'', ''20''), (''lang'', ''pt'')],
       req_authorization = ''Client-ID '' @ accessKey \<rparr>"

text \<open>The result returned when \<open>!accessKey\<close> holds (the messages are given without accents).\<close>

definition keyNotConfigured :: "'img SearchResult" where
  "keyNotConfigured =
     \<lparr> success = False, images = None,
       error = Some ''A chave da API do Unsplash nao esta configurada no painel de admin.'' \<rparr>"

definition searchUnsplashImages :: "'img Services \<Rightarrow> string \<Rightarrow> 'img SearchResult" where
  "searchUnsplashImages sv query =
     (if query = [] then
        \<lparr> success = False, images = None,
          error = Some ''A busca nao pode ser vazia.'' \<rparr>
      else
        (case keyLookup sv of
           DbError \<Rightarrow>
             \<lparr> success = False, images = None,
               error = Some ''Nao foi possivel buscar a chave da API.'' \<rparr>
         | Key None \<Rightarrow> keyNotConfigured
         | Key (Some accessKey) \<Rightarrow>
             (if accessKey = [] then keyNotConfigured
              else
                (case fetch sv (searchRequest accessKey query) of
                   FetchError \<Rightarrow>
                     \<lparr> success = False, images = None,
                       error = Some ''Nao foi possivel conectar a API do Unsplash.'' \<rparr>
                 | NotOk msg \<Rightarrow>
                     \<lparr> success = False, images = None,
                       error = Some (''Erro na API do Unsplash: '' @ msg) \<rparr>
                 | Ok results \<Rightarrow>
                     \<lparr> success = True, images = Some results, error = None \<rparr>))))"

text \<open>
  The dialog calls \<open>searchUnsplashImages(searchQuery, pageToFetch)\<close>; the function
  declares one parameter, so the second argument is dropped by the call.
\<close>

definition callSearch :: "'img Services \<Rightarrow> string \<Rightarrow> nat \<Rightarrow> 'img SearchResult" where
  "callSearch sv searchQuery pageToFetch = searchUnsplashImages sv searchQuery"

text \<open>
  \<open>handleSearch(e, newSearch)\<close> of the dialog, on its state \<open>searchResults\<close> and
  \<open>currentPage\<close>; the second component of the result is the description of the error
  toast, if one is shown.
\<close>

record 'img Dialog =
  searchResults :: "'img list"
  currentPage :: nat

definition handleSearch ::
  "'img Services \<Rightarrow> string \<Rightarrow> bool \<Rightarrow> 'img Dialog \<Rightarrow> 'img Dialog \<times> string option" where
  "handleSearch sv searchQuery newSearch st =
     (if searchQuery = [] then (st, None)
      else
        (let pageToFetch = (if newSearch then 1 else currentPage st + 1);
             st1 = (if newSearch then \<lparr> searchResults = [], currentPage = 1 \<rparr> else st);
             result = callSearch sv searchQuery pageToFetch
         in case (success result, images result) of
              (True, Some imgs) \<Rightarrow>
                (\<lparr> searchResults = (if newSearch then imgs else searchResults st1 @ imgs),
                   currentPage = (if newSearch then currentPage st1 else pageToFetch) \<rparr>,
                 None)
            | _ \<Rightarrow> (st1, error result)))"

section \<open>Example data\<close>

text \<open>Small documents of each collection, used to run the definitions on concrete inputs.\<close>

definition broadcast :: "string \<Rightarrow> Target \<Rightarrow> int \<Rightarrow> Notification" where
  "broadcast i t ms =
     \<lparr> n_id = i, n_title = ''Aviso'', n_description = ''Novidades'', n_target = t,
       n_buttonLabel = None, n_buttonUrl = None, n_createdAt = Timestamp ms \<rparr>"

definition campaign :: "string \<Rightarrow> TriggerType \<Rightarrow> int \<Rightarrow> int \<Rightarrow> NotificationCampaign" where
  "campaign i t n ms =
     \<lparr> c_id = i, c_name = ''Lembrete'', c_title = ''Lembrete'',
       c_description = ''Hora de planejar'', c_buttonLabel = None, c_buttonUrl = None,
       c_triggerType = t, c_offsetDays = n, c_isActive = True,
       c_createdAt = Timestamp ms \<rparr>"

definition profile :: "AppRole \<Rightarrow> int option \<Rightarrow> AppUser option" where
  "profile r signup = Some \<lparr> role = Some r, createdAt = map_option Timestamp signup \<rparr>"

definition wedding :: "int \<Rightarrow> WeddingData option" where
  "wedding ms = Some \<lparr> weddingDate = Some (Timestamp ms) \<rparr>"

text \<open>
  Two time zones: UTC, and New York in 2024 (five hours behind UTC, four between the
  clock changes of 2024-03-10 07:00 UTC and 2024-11-03 06:00 UTC).
\<close>

definition utcZone :: TimeZone where
  "utcZone = \<lparr> offsetAtUtc = (\<lambda>t. 0), offsetAtLocal = (\<lambda>t. 0) \<rparr>"

definition newYork2024 :: TimeZone where
  "newYork2024 =
     \<lparr> offsetAtUtc = (\<lambda>t. if 1710054000000 \<le> t \<and> t < 1730613600000
                           then - 14400000 else - 18000000),
       offsetAtLocal = (\<lambda>t. if 1710039600000 \<le> t \<and> t < 1730599200000
                             then - 14400000 else - 18000000) \<rparr>"

text \<open>A browser with a 2d context in which every image encodes to 400000 characters.\<close>

definition demoBrowser :: Browser where
  "demoBrowser = \<lparr> hasContext = True, dataUrlLength = (\<lambda>file canvas. 400000) \<rparr>"

text \<open>
  An image service that pages: it answers a request carrying \<open>page=2\<close> with the second
  page and any other request with the first.
\<close>

definition pagedApi :: "string Services" where
  "pagedApi =
     \<lparr> keyLookup = Key (Some ''key-123''),
       fetch = (\<lambda>req. Ok (if map_of (req_params req) ''page'' = Some ''2''
                            then [''photo-3'', ''photo-4'']
                            else [''photo-1'', ''photo-2''])) \<rparr>"

lemmas resolver_defs =
  mergedNotifications_def manualNotifications_def campaignNotifications_def
  manualVisible_def manualEntry_def campaignEntry_def campaignFires_def triggerDate_def
  byCreatedAtDesc_def isPast_def addDays_def setDatePlus_def timeClip_def maxTime_def
  toDate_def msPerDay_def isDeleted_def isRead_def profileRole_def profileCreatedAt_def
  weddingDateOf_def

lemmas example_defs =
  broadcast_def campaign_def profile_def wedding_def utcZone_def newYork2024_def

section \<open>Properties of the sort\<close>

lemma set_insert_cmp: "set (insert_cmp cmp x xs) = insert x (set xs)"
  by (induction xs) auto

lemma set_sort_cmp: "set (sort_cmp cmp xs) = set xs"
  by (induction xs) (auto simp: set_insert_cmp)

lemma mset_insert_cmp: "mset (insert_cmp cmp x xs) = add_mset x (mset xs)"
  by (induction xs) auto

lemma mset_sort_cmp: "mset (sort_cmp cmp xs) = mset xs"
  by (induction xs) (auto simp: mset_insert_cmp)

text \<open>Stability: the entries of one key keep the order they had before the sort.\<close>

lemma filter_key_insert_cmp:
  assumes "\<And>a b. cmp a b = key b - key a"
  shows "filter (\<lambda>y. key y = (k::int)) (insert_cmp cmp x xs) =
         filter (\<lambda>y. key y = k) (x # xs)"
  using assms by (induction xs) auto

lemma filter_key_sort_cmp:
  assumes "\<And>a b. cmp a b = key b - key a"
  shows "filter (\<lambda>y. key y = (k::int)) (sort_cmp cmp xs) = filter (\<lambda>y. key y = k) xs"
  using assms by (induction xs) (auto simp: filter_key_insert_cmp)

section \<open>Properties of the feed\<close>

lemma set_mergedNotifications:
  "set (mergedNotifications tz now userProfile weddingData globalNotifications
          notificationCampaigns userStates) =
   set (manualNotifications userProfile userStates globalNotifications) \<union>
   set (campaignNotifications tz now userProfile weddingData userStates notificationCampaigns)"
  by (simp add: mergedNotifications_def set_sort_cmp)

lemma manual_ids_not_deleted:
  "m \<in> set (manualNotifications userProfile userStates globalNotifications) \<Longrightarrow>
   \<not> isDeleted userStates (m_id m)"
  by (auto simp: manualNotifications_def manualVisible_def manualEntry_def split: if_splits)

lemma campaign_ids_not_deleted:
  "m \<in> set (campaignNotifications tz now userProfile weddingData userStates
              notificationCampaigns) \<Longrightarrow>
   \<not> isDeleted userStates (m_id m)"
  by (auto simp: campaignNotifications_def campaignEntry_def split: option.splits)

lemma feed_ids_not_deleted:
  "m \<in> set (mergedNotifications tz now userProfile weddingData globalNotifications
              notificationCampaigns userStates) \<Longrightarrow>
   \<not> isDeleted userStates (m_id m)"
  using manual_ids_not_deleted campaign_ids_not_deleted
  by (auto simp: set_mergedNotifications)

lemma sorted_insert_cmp:
  assumes "\<And>a b. cmp a b = key b - key a"
  shows "sorted_wrt (\<lambda>a b. key a \<ge> key b) xs \<Longrightarrow>
         sorted_wrt (\<lambda>a b. (key a :: int) \<ge> key b) (insert_cmp cmp x xs)"
  using assms by (induction xs) (auto simp: set_insert_cmp)

lemma sorted_sort_cmp:
  assumes "\<And>a b. cmp a b = key b - key a"
  shows "sorted_wrt (\<lambda>a b. (key a :: int) \<ge> key b) (sort_cmp cmp xs)"
  using assms by (induction xs) (auto intro: sorted_insert_cmp)

lemma strict_of_distinct:
  "sorted_wrt (\<lambda>a b. (f a :: int) \<ge> f b) xs \<Longrightarrow> distinct (map f xs) \<Longrightarrow>
   sorted_wrt (\<lambda>a b. f a > f b) xs"
proof (induction xs)
  case Nil
  then show ?case by simp
next
  case (Cons a xs)
  have "f x < f a" if "x \<in> set xs" for x
  proof -
    from Cons.prems(1) that have "f x \<le> f a" by simp
    moreover from Cons.prems(2) that have "f x \<noteq> f a" by (auto simp: image_iff)
    ultimately show ?thesis by simp
  qed
  with Cons show ?case by simp
qed

lemma same_id_same_elem:
  "distinct (map f xs) \<Longrightarrow> x \<in> set xs \<Longrightarrow> y \<in> set xs \<Longrightarrow> f x = f y \<Longrightarrow> x = y"
  by (meson distinct_map inj_onD)

lemma feed_sorted_desc:
  "sorted_wrt (\<lambda>a b. toMillis (m_createdAt a) \<ge> toMillis (m_createdAt b))
     (mergedNotifications tz now userProfile weddingData globalNotifications
        notificationCampaigns userStates)"
  unfolding mergedNotifications_def
  by (rule sorted_sort_cmp) (simp add: byCreatedAtDesc_def)

lemma feed_same_entries:
  "mset (mergedNotifications tz now userProfile weddingData globalNotifications
           notificationCampaigns userStates) =
   mset (manualNotifications userProfile userStates globalNotifications @
         campaignNotifications tz now userProfile weddingData userStates
           notificationCampaigns)"
  by (simp add: mergedNotifications_def mset_sort_cmp)

lemma feed_stable:
  "filter (\<lambda>m. toMillis (m_createdAt m) = k)
     (mergedNotifications tz now userProfile weddingData globalNotifications
        notificationCampaigns userStates) =
   filter (\<lambda>m. toMillis (m_createdAt m) = k)
     (manualNotifications userProfile userStates globalNotifications @
      campaignNotifications tz now userProfile weddingData userStates
        notificationCampaigns)"
  unfolding mergedNotifications_def
  by (rule filter_key_sort_cmp) (simp add: byCreatedAtDesc_def)

lemma feed_entry_origin:
  assumes "m \<in> set (mergedNotifications tz now userProfile weddingData globalNotifications
                      notificationCampaigns userStates)"
  shows "(\<exists>n \<in> set globalNotifications.
            m = manualEntry userStates n \<and> m_createdAt m = n_createdAt n) \<or>
         (\<exists>c \<in> set notificationCampaigns.
            m = campaignEntry userStates c \<and> m_createdAt m = c_createdAt c)"
  using assms
  by (auto simp: set_mergedNotifications manualNotifications_def campaignNotifications_def
      manualEntry_def campaignEntry_def split: option.splits)

lemma deleted_not_in_feed:
  assumes "isDeleted userStates i"
  shows "i \<notin> m_id ` set (mergedNotifications tz now userProfile weddingData
            globalNotifications notificationCampaigns userStates)"
  using assms feed_ids_not_deleted by blast

text \<open>
  In a time zone whose offset never changes a calendar day is 86400000 ms: the moved
  date is the instant plus that many milliseconds per day, clipped.
\<close>

lemma addDays_constant_offset:
  assumes "offsetAtUtc tz = (\<lambda>t. k)" and "offsetAtLocal tz = (\<lambda>t. k)"
    and "\<bar>t\<bar> \<le> maxTime"
  shows "addDays tz (Some t) n = timeClip (t + n * 86400000)"
  using assms by (simp add: addDays_def setDatePlus_def msPerDay_def timeClip_def)

lemma no_profile_date_no_campaigns:
  "profileCreatedAt userProfile = None \<Longrightarrow>
   campaignNotifications tz now userProfile weddingData userStates notificationCampaigns = []"
  by (simp add: campaignNotifications_def)

lemma manual_isCampaign:
  "m \<in> set (manualNotifications userProfile userStates globalNotifications) \<Longrightarrow>
   m_isCampaign m = None"
  by (auto simp: manualNotifications_def manualEntry_def)

lemma manualEntry_in_manual:
  assumes "b \<in> set globalNotifications" and "distinct (map n_id globalNotifications)"
  shows "manualEntry userStates b \<in>
           set (manualNotifications userProfile userStates globalNotifications)
         \<longleftrightarrow> manualVisible userProfile userStates b"
proof
  assume "manualEntry userStates b \<in>
            set (manualNotifications userProfile userStates globalNotifications)"
  then obtain b' where b': "b' \<in> set globalNotifications"
      "manualVisible userProfile userStates b'"
      "manualEntry userStates b' = manualEntry userStates b"
    by (auto simp: manualNotifications_def)
  from b'(3) have "n_id b' = n_id b"
    by (simp add: manualEntry_def)
  with assms b'(1) have "b' = b"
    by (rule_tac same_id_same_elem [of n_id globalNotifications])
  with b'(2) show "manualVisible userProfile userStates b" by simp
next
  assume "manualVisible userProfile userStates b"
  with assms(1) show "manualEntry userStates b \<in>
            set (manualNotifications userProfile userStates globalNotifications)"
    by (simp add: manualNotifications_def)
qed

lemma manualEntry_not_campaign:
  "manualEntry userStates b \<notin>
     set (campaignNotifications tz now userProfile weddingData userStates notificationCampaigns)"
  by (auto simp: campaignNotifications_def manualEntry_def campaignEntry_def
      split: option.splits)



section \<open>Properties of the two mutations\<close>

lemma isDeleted_deletedField: "isDeleted db i \<longleftrightarrow> deletedField db i = Some True"
  by (simp add: isDeleted_def deletedField_def split: option.splits)

lemma isRead_readField: "isRead db i \<longleftrightarrow> readField db i = Some True"
  by (simp add: isRead_def readField_def split: option.splits)

lemma deletedField_set_read:
  "deletedField (setDocMerge db i \<lparr> read = Some True, deleted = None \<rparr>) j = deletedField db j"
  by (simp add: deletedField_def setDocMerge_def mergeFields_def split: option.splits)

lemma readField_set_read:
  "readField (setDocMerge db i \<lparr> read = Some True, deleted = None \<rparr>) i = Some True"
  by (simp add: readField_def setDocMerge_def mergeFields_def split: option.splits)

lemma readField_set_deleted:
  "readField (setDocMerge db i \<lparr> read = None, deleted = Some True \<rparr>) j = readField db j"
  by (simp add: readField_def setDocMerge_def mergeFields_def split: option.splits)

lemma deletedField_set_deleted:
  "deletedField (setDocMerge db i \<lparr> read = None, deleted = Some True \<rparr>) j =
     (if j = i then Some True else deletedField db j)"
  by (simp add: deletedField_def setDocMerge_def mergeFields_def split: option.splits)

lemma setDocMerge_other: "j \<noteq> i \<Longrightarrow> setDocMerge db i data j = db j"
  by (simp add: setDocMerge_def)

lemma set_read_noop:
  "isRead db i \<Longrightarrow> setDocMerge db i \<lparr> read = Some True, deleted = None \<rparr> = db"
  by (auto simp: isRead_def setDocMerge_def mergeFields_def fun_eq_iff split: option.splits)

lemma set_deleted_noop:
  "isDeleted db i \<Longrightarrow> setDocMerge db i \<lparr> read = None, deleted = Some True \<rparr> = db"
  by (auto simp: isDeleted_def setDocMerge_def mergeFields_def fun_eq_iff split: option.splits)

lemma markAsRead_deletedField:
  "deletedField (db_after (handleMarkAsRead user userStates db i w)) j = deletedField db j"
  by (simp add: handleMarkAsRead_def deletedField_set_read split: WriteResult.splits)

lemma markAsRead_other:
  "j \<noteq> i \<Longrightarrow> db_after (handleMarkAsRead user userStates db i w) j = db j"
  by (simp add: handleMarkAsRead_def setDocMerge_other split: WriteResult.splits)

lemma markAsRead_sets_read:
  "(isRead userStates i \<longrightarrow> isRead db i) \<Longrightarrow>
   readField (db_after (handleMarkAsRead (Some u) userStates db i Committed)) i = Some True"
  by (auto simp: handleMarkAsRead_def readField_set_read isRead_readField)

lemma markAsRead_noop_cached:
  "isRead userStates i \<Longrightarrow> handleMarkAsRead user userStates db i w =
     \<lparr> settled = Fulfilled, db_after = db, consoleErrors = [] \<rparr>"
  by (simp add: handleMarkAsRead_def)

lemma markAsRead_noop_stored:
  "isRead db i \<Longrightarrow> db_after (handleMarkAsRead user userStates db i w) = db"
  by (simp add: handleMarkAsRead_def set_read_noop split: WriteResult.splits)

lemma markAsRead_idem:
  "db_after (handleMarkAsRead user
      (db_after (handleMarkAsRead user db db i w))
      (db_after (handleMarkAsRead user db db i w)) i w) =
   db_after (handleMarkAsRead user db db i w)"
  by (cases w) (simp_all add: handleMarkAsRead_def isRead_readField readField_set_read)

lemma markAsRead_deleted_mono:
  "isDeleted db j \<Longrightarrow> isDeleted (db_after (handleMarkAsRead user userStates db i w)) j"
  by (simp add: isDeleted_deletedField markAsRead_deletedField)

lemma delete_readField:
  "readField (db_after (handleDelete user db i w)) j = readField db j"
  by (simp add: handleDelete_def readField_set_deleted split: WriteResult.splits)

lemma delete_other:
  "j \<noteq> i \<Longrightarrow> db_after (handleDelete user db i w) j = db j"
  by (simp add: handleDelete_def setDocMerge_other split: WriteResult.splits)

lemma delete_sets_deleted:
  "deletedField (db_after (handleDelete (Some u) db i Committed)) i = Some True"
  by (simp add: handleDelete_def deletedField_set_deleted)

lemma delete_deleted_mono:
  "isDeleted db j \<Longrightarrow> isDeleted (db_after (handleDelete user db i w)) j"
  by (simp add: handleDelete_def isDeleted_deletedField deletedField_set_deleted
      split: WriteResult.splits)

lemma delete_idem:
  "db_after (handleDelete user (db_after (handleDelete user db i w)) i w) =
   db_after (handleDelete user db i w)"
  by (cases w)
     (simp_all add: handleDelete_def set_deleted_noop isDeleted_deletedField
        deletedField_set_deleted)

lemma perform_keeps_deleted: "isDeleted db i \<Longrightarrow> isDeleted (perform user db ev) i"
  by (cases "ev_action ev")
     (simp_all add: perform_def delete_deleted_mono markAsRead_deleted_mono)

lemma run_keeps_deleted: "isDeleted db i \<Longrightarrow> isDeleted (run user db evs) i"
  by (induction evs arbitrary: db) (simp_all add: perform_keeps_deleted)

section \<open>Properties of the resize\<close>

text \<open>
  The example of the specification; an image on which rounding to a double decides the
  pixel (the exact quotient would give 960); and the gate on the size of the original
  file.
\<close>

lemma scaled_2000x1000: "jsMul 1000 (jsDiv 1920 2000) = 960"
  by code_simp

lemma scaled_2162x1081:
  "jsMul 1081 (jsDiv 1920 2162) = 8444249301319679 / 8796093022208"
  by code_simp

lemma scaled_3000x2000: "jsMul 2000 (jsDiv 1920 3000) = 1280"
  by code_simp

lemma newDimensions_2000x1000: "newDimensions 2000 1000 = (1920, 960)"
  unfolding newDimensions_def MAX_WIDTH_def MAX_HEIGHT_def Let_def of_nat_numeral
  by (simp add: scaled_2000x1000)

lemma newDimensions_2162x1081:
  "newDimensions 2162 1081 = (1920, 8444249301319679 / 8796093022208)"
  unfolding newDimensions_def MAX_WIDTH_def MAX_HEIGHT_def Let_def of_nat_numeral
  by (simp add: scaled_2162x1081)

lemma newDimensions_3000x2000: "newDimensions 3000 2000 = (1920, 1280)"
  unfolding newDimensions_def MAX_WIDTH_def MAX_HEIGHT_def Let_def of_nat_numeral
  by (simp add: scaled_3000x2000)

lemma newDimensions_1900x1500: "newDimensions 1900 1500 = (1900, 1500)"
  by (simp add: newDimensions_def MAX_WIDTH_def Let_def)

lemma resize_2000x1000: "canvasSize 2000 1000 = (1920, 960)"
  by (simp add: canvasSize_def newDimensions_2000x1000)

lemma floor_scaled_2162x1081: "\<lfloor>8444249301319679 / 8796093022208 :: rat\<rfloor> = 959"
  by (simp add: floor_eq_iff)

lemma resize_2162x1081: "canvasSize 2162 1081 = (1920, 959)"
  by (simp add: canvasSize_def newDimensions_2162x1081 floor_scaled_2162x1081)

lemma six_MiB_rejected:
  "handleFileSelect br (Some \<lparr> f_size = 6 * 1024 * 1024, f_decoded = d \<rparr>) = OriginalTooLarge"
  by (simp add: handleFileSelect_def)

section \<open>Properties of the image search\<close>

lemma callSearch_ignores_page: "callSearch sv q p = callSearch sv q p'"
  by (simp add: callSearch_def)

section \<open>The claims about the notification feed\<close>

text \<open>
  C1. A source id whose user state has \<open>deleted == true\<close> never appears in the merged
  feed, whatever the broadcasts' targets, the campaigns' trigger types, activity and
  trigger dates, the profile and the clock are.
\<close>

theorem deleted_never_in_feed:
  assumes "userStates i = Some st" and "deleted st = Some True"
  shows "i \<notin> m_id ` set (mergedNotifications tz now userProfile weddingData
            globalNotifications notificationCampaigns userStates)"
proof
  assume "i \<in> m_id ` set (mergedNotifications tz now userProfile weddingData
            globalNotifications notificationCampaigns userStates)"
  then obtain m where m: "m \<in> set (mergedNotifications tz now userProfile weddingData
            globalNotifications notificationCampaigns userStates)" and "m_id m = i"
    by auto
  from feed_ids_not_deleted [OF m] \<open>m_id m = i\<close> have "\<not> isDeleted userStates i" by simp
  with assms show False by (simp add: isDeleted_def)
qed

text \<open>
  C1 at a concrete input: the id \<open>n1\<close> is deleted (and read); a broadcast to all and an
  active, due campaign carry that id, and neither is in the feed.
\<close>

theorem deleted_never_in_feed_witness:
  "[''n1'' \<mapsto> \<lparr> read = Some True, deleted = Some True \<rparr>] ''n1'' =
      Some \<lparr> read = Some True, deleted = Some True \<rparr> \<and>
   ''n1'' \<notin> m_id ` set (mergedNotifications utcZone 1000000000 (profile bride (Some 0)) None
      [broadcast ''n1'' all 100, broadcast ''n2'' couples 150]
      [campaign ''n1'' relativeToSignup 1 300]
      [''n1'' \<mapsto> \<lparr> read = Some True, deleted = Some True \<rparr>])"
  using deleted_never_in_feed [of "[''n1'' \<mapsto> \<lparr> read = Some True, deleted = Some True \<rparr>]"
      "''n1''" "\<lparr> read = Some True, deleted = Some True \<rparr>" utcZone 1000000000
      "profile bride (Some 0)" None
      "[broadcast ''n1'' all 100, broadcast ''n2'' couples 150]"
      "[campaign ''n1'' relativeToSignup 1 300]"]
  by simp

text \<open>
  C2, as amended. The merged feed holds exactly the visible broadcasts and the
  materialized campaigns, each as often as it was produced (entries with equal keys are
  all kept), sorted in descending order of the sort key; entries of one key stand in the
  order they were produced in, broadcasts before campaigns, and the order is strictly
  descending whenever the keys of its entries are pairwise distinct. The key of every
  entry is the \<open>createdAt\<close> of the record it was made from: the broadcast's own, or the
  campaign rule's own (never the computed trigger date).
\<close>

theorem feed_sorted_by_createdAt:
  assumes "feed = mergedNotifications tz now userProfile weddingData globalNotifications
                    notificationCampaigns userStates"
  shows "mset feed =
           mset (manualNotifications userProfile userStates globalNotifications @
                 campaignNotifications tz now userProfile weddingData userStates
                   notificationCampaigns) \<and>
         sorted_wrt (\<lambda>a b. toMillis (m_createdAt a) \<ge> toMillis (m_createdAt b)) feed \<and>
         (\<forall>k. filter (\<lambda>m. toMillis (m_createdAt m) = k) feed =
              filter (\<lambda>m. toMillis (m_createdAt m) = k)
                (manualNotifications userProfile userStates globalNotifications @
                 campaignNotifications tz now userProfile weddingData userStates
                   notificationCampaigns)) \<and>
         (distinct (map (\<lambda>m. toMillis (m_createdAt m)) feed) \<longrightarrow>
            sorted_wrt (\<lambda>a b. toMillis (m_createdAt a) > toMillis (m_createdAt b)) feed) \<and>
         (\<forall>m \<in> set feed.
            (\<exists>n \<in> set globalNotifications.
               m = manualEntry userStates n \<and> m_createdAt m = n_createdAt n) \<or>
            (\<exists>c \<in> set notificationCampaigns.
               m = campaignEntry userStates c \<and> m_createdAt m = c_createdAt c))"
proof (intro conjI impI ballI allI)
  show "mset feed =
           mset (manualNotifications userProfile userStates globalNotifications @
                 campaignNotifications tz now userProfile weddingData userStates
                   notificationCampaigns)"
    unfolding assms by (rule feed_same_entries)
  show "sorted_wrt (\<lambda>a b. toMillis (m_createdAt a) \<ge> toMillis (m_createdAt b)) feed"
    unfolding assms by (rule feed_sorted_desc)
  then show "sorted_wrt (\<lambda>a b. toMillis (m_createdAt a) > toMillis (m_createdAt b)) feed"
    if "distinct (map (\<lambda>m. toMillis (m_createdAt m)) feed)"
    using that by (rule strict_of_distinct)
  show "filter (\<lambda>m. toMillis (m_createdAt m) = k) feed =
          filter (\<lambda>m. toMillis (m_createdAt m) = k)
            (manualNotifications userProfile userStates globalNotifications @
             campaignNotifications tz now userProfile weddingData userStates
               notificationCampaigns)" for k
    unfolding assms by (rule feed_stable)
  show "(\<exists>n \<in> set globalNotifications.
               m = manualEntry userStates n \<and> m_createdAt m = n_createdAt n) \<or>
            (\<exists>c \<in> set notificationCampaigns.
               m = campaignEntry userStates c \<and> m_createdAt m = c_createdAt c)"
    if "m \<in> set feed" for m
    using that unfolding assms by (rule feed_entry_origin)
qed

text \<open>
  C2 at a concrete input: campaign \<open>c\<close> was created after campaign \<open>d\<close> but triggers four
  days before it; the feed lists \<open>c\<close> first, by creation time, then \<open>d\<close>, then the one
  broadcast the guest may see.
\<close>

theorem feed_sorted_by_createdAt_witness:
  "map m_id (mergedNotifications utcZone 1000000000 (profile guest (Some 0)) None
      [broadcast ''a'' all 100, broadcast ''b'' couples 150]
      [campaign ''c'' relativeToSignup 1 300, campaign ''d'' relativeToSignup 5 200]
      Map.empty) = [''c'', ''d'', ''a''] \<and>
   sorted_wrt (\<lambda>a b. toMillis (m_createdAt a) > toMillis (m_createdAt b))
     (mergedNotifications utcZone 1000000000 (profile guest (Some 0)) None
      [broadcast ''a'' all 100, broadcast ''b'' couples 150]
      [campaign ''c'' relativeToSignup 1 300, campaign ''d'' relativeToSignup 5 200]
      Map.empty)"
  using feed_sorted_by_createdAt [OF refl, of utcZone 1000000000 "profile guest (Some 0)"
      None "[broadcast ''a'' all 100, broadcast ''b'' couples 150]"
      "[campaign ''c'' relativeToSignup 1 300, campaign ''d'' relativeToSignup 5 200]"
      Map.empty]
  by (simp add: resolver_defs example_defs)

text \<open>
  C2 as stated fails: two broadcasts created at the same millisecond are both in the
  feed, which is then not strictly descending.
\<close>

theorem feed_not_strictly_descending:
  "\<not> sorted_wrt (\<lambda>a b. toMillis (m_createdAt a) > toMillis (m_createdAt b))
       (mergedNotifications utcZone 1000000000 (profile guest (Some 0)) None
          [broadcast ''a'' all 100, broadcast ''b'' all 100] [] Map.empty)"
  by (simp add: resolver_defs example_defs)




text \<open>
  C4. Once the stored state of a source id has \<open>deleted == true\<close>, it still has after
  any sequence of mark-as-read and delete clicks on any ids (whatever copy of the states
  each click sees, and whether its write commits or fails), and the id is not in the
  feed computed from the resulting states, read or not.
\<close>

theorem delete_is_terminal:
  assumes "isDeleted db i"
  shows "isDeleted (run user db evs) i \<and>
         i \<notin> m_id ` set (mergedNotifications tz now userProfile weddingData
                 globalNotifications notificationCampaigns (run user db evs))"
  using run_keeps_deleted [OF assms] deleted_not_in_feed by blast

text \<open>
  C4 at a concrete input: \<open>n1\<close> is deleted by a click; marking it as read and deleting
  it again afterwards leave it deleted and out of the feed.
\<close>

theorem delete_is_terminal_witness:
  "isDeleted (db_after (handleDelete (Some (User ''u1'')) Map.empty ''n1'' Committed)) ''n1'' \<and>
   isDeleted
     (run (Some (User ''u1''))
        (db_after (handleDelete (Some (User ''u1'')) Map.empty ''n1'' Committed))
        [\<lparr> ev_action = MarkRead ''n1'', ev_userStates = Map.empty, ev_write = Committed \<rparr>,
         \<lparr> ev_action = Delete ''n1'', ev_userStates = Map.empty, ev_write = Failed ''offline'' \<rparr>,
         \<lparr> ev_action = MarkRead ''n2'', ev_userStates = Map.empty, ev_write = Committed \<rparr>])
     ''n1'' \<and>
   ''n1'' \<notin> m_id ` set (mergedNotifications utcZone 1000000000 (profile bride (Some 0)) None
      [broadcast ''n1'' all 100] []
      (run (Some (User ''u1''))
        (db_after (handleDelete (Some (User ''u1'')) Map.empty ''n1'' Committed))
        [\<lparr> ev_action = MarkRead ''n1'', ev_userStates = Map.empty, ev_write = Committed \<rparr>,
         \<lparr> ev_action = Delete ''n1'', ev_userStates = Map.empty, ev_write = Failed ''offline'' \<rparr>,
         \<lparr> ev_action = MarkRead ''n2'', ev_userStates = Map.empty, ev_write = Committed \<rparr>]))"
proof -
  have h: "isDeleted (db_after (handleDelete (Some (User ''u1'')) Map.empty ''n1'' Committed))
             ''n1''"
    by (simp add: handleDelete_def setDocMerge_def isDeleted_def)
  show ?thesis
    using h delete_is_terminal [OF h, of "Some (User ''u1'')"
        "[\<lparr> ev_action = MarkRead ''n1'', ev_userStates = Map.empty, ev_write = Committed \<rparr>,
          \<lparr> ev_action = Delete ''n1'', ev_userStates = Map.empty, ev_write = Failed ''offline'' \<rparr>,
          \<lparr> ev_action = MarkRead ''n2'', ev_userStates = Map.empty, ev_write = Committed \<rparr>]"
        utcZone 1000000000 "profile bride (Some 0)" None "[broadcast ''n1'' all 100]" "[]"]
    by simp
qed

text \<open>
  C6. A broadcast that the user has not deleted, in a collection whose document ids are
  distinct, is in the feed if and only if its target is \<open>all\<close>, or its target is
  \<open>couples\<close> and the user's role is bride, groom or the administrator role
  (\<open>super_admin\<close>).
\<close>

theorem broadcast_target_visibility:
  assumes "b \<in> set globalNotifications"
    and "distinct (map n_id globalNotifications)"
    and "\<not> isDeleted userStates (n_id b)"
  shows "manualEntry userStates b \<in>
           set (mergedNotifications tz now userProfile weddingData globalNotifications
                  notificationCampaigns userStates)
         \<longleftrightarrow> (n_target b = all \<or>
              (n_target b = couples \<and>
               profileRole userProfile \<in> {Some bride, Some groom, Some super_admin}))"
proof -
  have "manualEntry userStates b \<in>
           set (mergedNotifications tz now userProfile weddingData globalNotifications
                  notificationCampaigns userStates)
        \<longleftrightarrow> manualVisible userProfile userStates b"
    using manualEntry_in_manual [OF assms(1,2)]
    by (simp add: set_mergedNotifications manualEntry_not_campaign)
  also have "\<dots> \<longleftrightarrow> (n_target b = all \<or>
              (n_target b = couples \<and>
               profileRole userProfile \<in> {Some bride, Some groom, Some super_admin}))"
    using assms(3) by (cases "n_target b") (auto simp: manualVisible_def Let_def)
  finally show ?thesis .
qed

text \<open>
  C6 at concrete inputs: the broadcast to couples is hidden from a guest and shown to a
  bride; the broadcast to all is shown to the guest.
\<close>

theorem broadcast_target_visibility_witness:
  "manualEntry Map.empty (broadcast ''b'' couples 150) \<notin>
     set (mergedNotifications utcZone 1000000000 (profile guest (Some 0)) None
            [broadcast ''a'' all 100, broadcast ''b'' couples 150] [] Map.empty) \<and>
   manualEntry Map.empty (broadcast ''b'' couples 150) \<in>
     set (mergedNotifications utcZone 1000000000 (profile bride (Some 0)) None
            [broadcast ''a'' all 100, broadcast ''b'' couples 150] [] Map.empty) \<and>
   manualEntry Map.empty (broadcast ''a'' all 100) \<in>
     set (mergedNotifications utcZone 1000000000 (profile guest (Some 0)) None
            [broadcast ''a'' all 100, broadcast ''b'' couples 150] [] Map.empty)"
  using broadcast_target_visibility [where b = "broadcast ''b'' couples 150"
            and globalNotifications = "[broadcast ''a'' all 100, broadcast ''b'' couples 150]"
            and userStates = Map.empty and tz = utcZone and now = 1000000000
            and userProfile = "profile guest (Some 0)" and weddingData = None
            and notificationCampaigns = "[]"]
        broadcast_target_visibility [where b = "broadcast ''b'' couples 150"
            and globalNotifications = "[broadcast ''a'' all 100, broadcast ''b'' couples 150]"
            and userStates = Map.empty and tz = utcZone and now = 1000000000
            and userProfile = "profile bride (Some 0)" and weddingData = None
            and notificationCampaigns = "[]"]
        broadcast_target_visibility [where b = "broadcast ''a'' all 100"
            and globalNotifications = "[broadcast ''a'' all 100, broadcast ''b'' couples 150]"
            and userStates = Map.empty and tz = utcZone and now = 1000000000
            and userProfile = "profile guest (Some 0)" and weddingData = None
            and notificationCampaigns = "[]"]
  by (simp add: example_defs isDeleted_def profileRole_def)

text \<open>
  C10. When the profile is missing or has no \<open>createdAt\<close>, no campaign is in the feed,
  the \<open>relativeToWeddingDate\<close> ones included: the feed is the sorted list of the visible
  broadcasts and every entry of it is made from a broadcast.
\<close>

theorem no_signup_only_broadcasts:
  assumes "profileCreatedAt userProfile = None"
  shows "mergedNotifications tz now userProfile weddingData globalNotifications
           notificationCampaigns userStates =
         sort_cmp byCreatedAtDesc
           (manualNotifications userProfile userStates globalNotifications)
       \<and> (\<forall>m \<in> set (mergedNotifications tz now userProfile weddingData globalNotifications
                        notificationCampaigns userStates).
            m_isCampaign m = None \<and>
            (\<exists>n \<in> set globalNotifications. m = manualEntry userStates n))"
  using assms
  by (auto simp: mergedNotifications_def no_profile_date_no_campaigns set_sort_cmp
      manual_isCampaign manualNotifications_def)

text \<open>
  C10 at a concrete input: a bride without \<open>createdAt\<close>, a wedding date long past and
  an active campaign relative to the wedding date; the feed holds the two broadcasts
  only.
\<close>

theorem no_signup_only_broadcasts_witness:
  "profileCreatedAt (profile bride None) = None \<and>
   map m_id (mergedNotifications utcZone 1000000000 (profile bride None) (wedding 5)
     [broadcast ''a'' all 100, broadcast ''b'' couples 150]
     [campaign ''c'' relativeToWeddingDate 1 300] Map.empty) = [''b'', ''a'']"
  using no_signup_only_broadcasts [of "profile bride None" utcZone 1000000000 "wedding 5"
     "[broadcast ''a'' all 100, broadcast ''b'' couples 150]"
     "[campaign ''c'' relativeToWeddingDate 1 300]" Map.empty]
  by (simp add: resolver_defs example_defs)

section \<open>The claims about the two mutations\<close>

text \<open>
  C5. For a signed-in user whose write commits, mark-as-read leaves \<open>read = true\<close>
  stored for the id (given that the widget's copy does not show the id as read while the
  store does not), and delete leaves \<open>deleted = true\<close> stored. In every case
  mark-as-read leaves the stored \<open>deleted\<close> field of every id as it was, delete leaves
  the stored \<open>read\<close> field of every id as it was, and neither touches the document of
  another id. Mark-as-read changes nothing when the flag is already true (in the widget's
  copy or in the store), and doing either operation twice gives the same stored states
  as doing it once.
\<close>

theorem markRead_delete_own_flag_only:
  "((isRead userStates i \<longrightarrow> isRead db i) \<longrightarrow>
      readField (db_after (handleMarkAsRead (Some u) userStates db i Committed)) i =
        Some True) \<and>
   deletedField (db_after (handleMarkAsRead user userStates db i w)) j = deletedField db j \<and>
   (j \<noteq> i \<longrightarrow> db_after (handleMarkAsRead user userStates db i w) j = db j) \<and>
   (isRead userStates i \<or> isRead db i \<longrightarrow>
      db_after (handleMarkAsRead user userStates db i w) = db) \<and>
   db_after (handleMarkAsRead user
      (db_after (handleMarkAsRead user db db i w))
      (db_after (handleMarkAsRead user db db i w)) i w) =
     db_after (handleMarkAsRead user db db i w) \<and>
   deletedField (db_after (handleDelete (Some u) db i Committed)) i = Some True \<and>
   readField (db_after (handleDelete user db i w)) j = readField db j \<and>
   (j \<noteq> i \<longrightarrow> db_after (handleDelete user db i w) j = db j) \<and>
   db_after (handleDelete user (db_after (handleDelete user db i w)) i w) =
     db_after (handleDelete user db i w)"
proof (intro conjI impI)
  show "readField (db_after (handleMarkAsRead (Some u) userStates db i Committed)) i =
          Some True"
    if "isRead userStates i \<longrightarrow> isRead db i"
    using that by (rule markAsRead_sets_read)
  show "deletedField (db_after (handleMarkAsRead user userStates db i w)) j = deletedField db j"
    by (rule markAsRead_deletedField)
  show "db_after (handleMarkAsRead user userStates db i w) j = db j" if "j \<noteq> i"
    using that by (rule markAsRead_other)
  show "db_after (handleMarkAsRead user userStates db i w) = db"
    if "isRead userStates i \<or> isRead db i"
    using that by (auto simp: markAsRead_noop_cached markAsRead_noop_stored)
  show "db_after (handleMarkAsRead user
      (db_after (handleMarkAsRead user db db i w))
      (db_after (handleMarkAsRead user db db i w)) i w) =
     db_after (handleMarkAsRead user db db i w)"
    by (rule markAsRead_idem)
  show "deletedField (db_after (handleDelete (Some u) db i Committed)) i = Some True"
    by (rule delete_sets_deleted)
  show "readField (db_after (handleDelete user db i w)) j = readField db j"
    by (rule delete_readField)
  show "db_after (handleDelete user db i w) j = db j" if "j \<noteq> i"
    using that by (rule delete_other)
  show "db_after (handleDelete user (db_after (handleDelete user db i w)) i w) =
     db_after (handleDelete user db i w)"
    by (rule delete_idem)
qed

text \<open>
  C5 at concrete inputs: marking a deleted, unread \<open>n1\<close> as read stores both flags and
  creates nothing for \<open>n2\<close>; marking an already read \<open>n1\<close> changes nothing; deleting a
  read \<open>n1\<close> stores both flags.
\<close>

theorem markRead_delete_own_flag_only_witness:
  "db_after (handleMarkAsRead (Some (User ''u1''))
      [''n1'' \<mapsto> \<lparr> read = None, deleted = Some True \<rparr>]
      [''n1'' \<mapsto> \<lparr> read = None, deleted = Some True \<rparr>] ''n1'' Committed) ''n1'' =
     Some \<lparr> read = Some True, deleted = Some True \<rparr> \<and>
   db_after (handleMarkAsRead (Some (User ''u1''))
      [''n1'' \<mapsto> \<lparr> read = None, deleted = Some True \<rparr>]
      [''n1'' \<mapsto> \<lparr> read = None, deleted = Some True \<rparr>] ''n1'' Committed) ''n2'' = None \<and>
   db_after (handleMarkAsRead (Some (User ''u1''))
      [''n1'' \<mapsto> \<lparr> read = Some True, deleted = None \<rparr>]
      [''n1'' \<mapsto> \<lparr> read = Some True, deleted = None \<rparr>] ''n1'' Committed) =
     [''n1'' \<mapsto> \<lparr> read = Some True, deleted = None \<rparr>] \<and>
   db_after (handleDelete (Some (User ''u1''))
      [''n1'' \<mapsto> \<lparr> read = Some True, deleted = None \<rparr>] ''n1'' Committed) ''n1'' =
     Some \<lparr> read = Some True, deleted = Some True \<rparr> \<and>
   db_after (handleDelete (Some (User ''u1''))
      [''n1'' \<mapsto> \<lparr> read = Some True, deleted = None \<rparr>] ''n1'' Committed) ''n2'' = None"
  using markRead_delete_own_flag_only [of
      "[''n1'' \<mapsto> \<lparr> read = None, deleted = Some True \<rparr>]" "''n1''"
      "[''n1'' \<mapsto> \<lparr> read = None, deleted = Some True \<rparr>]" "User ''u1''"
      "Some (User ''u1'')" Committed "''n2''"]
    markRead_delete_own_flag_only [of
      "[''n1'' \<mapsto> \<lparr> read = Some True, deleted = None \<rparr>]" "''n1''"
      "[''n1'' \<mapsto> \<lparr> read = Some True, deleted = None \<rparr>]" "User ''u1''"
      "Some (User ''u1'')" Committed "''n2''"]
  by (simp add: handleMarkAsRead_def handleDelete_def setDocMerge_def mergeFields_def
      isRead_def)

text \<open>
  C7, as amended. When the write of a delete fails, or the write of a mark-as-read that
  was attempted fails, the handler catches the error and writes it to the console: its
  own promise still fulfils, nothing else is produced, and the stored states are
  unchanged.
\<close>

theorem failed_write_is_logged_only:
  "handleDelete (Some u) db i (Failed e) =
     \<lparr> settled = Fulfilled, db_after = db,
       consoleErrors = [(''Error deleting notification:'', e)] \<rparr> \<and>
   (\<not> isRead userStates i \<longrightarrow>
      handleMarkAsRead (Some u) userStates db i (Failed e) =
        \<lparr> settled = Fulfilled, db_after = db,
          consoleErrors = [(''Error marking notification as read:'', e)] \<rparr>)"
  by (simp add: handleDelete_def handleMarkAsRead_def)

text \<open>C7 as amended, at a concrete input: both writes are refused by the store.\<close>

theorem failed_write_is_logged_only_witness:
  "\<not> isRead Map.empty ''n1'' \<and>
   handleDelete (Some (User ''u1'')) Map.empty ''n1'' (Failed ''permission-denied'') =
     \<lparr> settled = Fulfilled, db_after = Map.empty,
       consoleErrors = [(''Error deleting notification:'', ''permission-denied'')] \<rparr> \<and>
   handleMarkAsRead (Some (User ''u1'')) Map.empty Map.empty ''n1''
       (Failed ''permission-denied'') =
     \<lparr> settled = Fulfilled, db_after = Map.empty,
       consoleErrors = [(''Error marking notification as read:'', ''permission-denied'')] \<rparr>"
  using failed_write_is_logged_only [of "User ''u1''" Map.empty "''n1''"
      "''permission-denied''" Map.empty]
  by (simp add: isRead_def)

text \<open>
  C7 as stated fails: with the write refused, the promise of either handler fulfils, so
  the caller is given no error.
\<close>

theorem failed_write_not_surfaced:
  "settled (handleDelete (Some (User ''u1'')) Map.empty ''n1''
      (Failed ''permission-denied'')) = Fulfilled \<and>
   settled (handleMarkAsRead (Some (User ''u1'')) Map.empty Map.empty ''n1''
      (Failed ''permission-denied'')) = Fulfilled"
  by (simp add: handleDelete_def handleMarkAsRead_def isRead_def)

section \<open>The claims about images\<close>

text \<open>
  C8 fails on the code: a 2 MiB file holding a 1900 by 1500 image is accepted and drawn
  unchanged, and one holding a 3000 by 2000 image is drawn at 1920 by 1280; both
  canvases are higher than \<open>MAX_HEIGHT\<close>.
\<close>

theorem landscape_height_exceeds_bound:
  "handleFileSelect demoBrowser
     (Some \<lparr> f_size = 2 * 1024 * 1024, f_decoded = Image 1900 1500 \<rparr>) =
     UploadComplete (1900, 1500) \<and>
   handleFileSelect demoBrowser
     (Some \<lparr> f_size = 2 * 1024 * 1024, f_decoded = Image 3000 2000 \<rparr>) =
     UploadComplete (1920, 1280) \<and>
   MAX_HEIGHT < 1280"
  by (simp add: handleFileSelect_def compressAndConvertToBase64_def canvasSize_def
      newDimensions_1900x1500 newDimensions_3000x2000 demoBrowser_def MAX_HEIGHT_def)

text \<open>
  C9 fails on the code: against a service that pages, a new search for \<open>buque\<close> shows
  the first page, and "load more" appends the first page again while the dialog counts
  page 2; the request that would have fetched the second page is never sent.
\<close>

theorem load_more_repeats_first_page:
  "handleSearch pagedApi ''buque'' True \<lparr> searchResults = [], currentPage = 1 \<rparr> =
     (\<lparr> searchResults = [''photo-1'', ''photo-2''], currentPage = 1 \<rparr>, None) \<and>
   handleSearch pagedApi ''buque'' False
     \<lparr> searchResults = [''photo-1'', ''photo-2''], currentPage = 1 \<rparr> =
     (\<lparr> searchResults = [''photo-1'', ''photo-2'', ''photo-1'', ''photo-2''],
        currentPage = 2 \<rparr>, None) \<and>
   fetch pagedApi
     \<lparr> req_url = ''https://api.unsplash.com/search/photos'',
       req_params = [(''query'', ''buque''), (''page'', ''2''), (''per_page'', ''20''),
                     (''lang'', ''pt'')],
       req_authorization = ''Client-ID key-123'' \<rparr> = Ok [''photo-3'', ''photo-4'']"
  by (simp add: handleSearch_def callSearch_def searchUnsplashImages_def searchRequest_def
      pagedApi_def Let_def)

end
